theory Spec2Isabelle
  imports Main "HOL-Library.AList" "HOL-Library.Char_ord" "HOL-Library.List_Lexorder"
begin

section \<open>Python values, exceptions and built-ins\<close>

text \<open>
  Every \<^verbatim>\<open>raise\<close> of the sources, and every exception a built-in raises on the
  paths modelled here, is a constructor: the exception class followed by what the
  message says. Strings are ASCII character lists.
\<close>

datatype error =
    TypeError
  | AttributeError
  | UnboundLocalError
  | IndexError
  | ValueError_unpack
  | ValueError_invalid_literal
  | ValueError_unsupported_container_type
  | ValueError_missing_path
  | KeyError_already_set
  | KeyError_not_set
  | KeyError_schema
  | OperationalError
  | ProgrammingError
  | DatabaseError
  | IOError_missing_format_version
  | IOError_invalid_format_version
  | IOError_too_old_to_write
  | IOError_too_old_to_read
  | IOError_too_new
  | IOError_unsupported_serialization_format
  | IOError_unsupported_attribute_container_type
  | IOError_unsupported_attribute_data_type
  | IOError_unsupported_data_type
  | IOError_unable_to_query
  | IOError_already_opened
  | IOError_already_closed
  | IOError_closed_store
  | IOError_read_only_store

subsection \<open>Characters\<close>

definition is_digit :: "char \<Rightarrow> bool" where
  "is_digit c = (48 \<le> (of_char c :: nat) \<and> (of_char c :: nat) \<le> 57)"

definition digit_value :: "char \<Rightarrow> nat" where
  "digit_value c = of_char c - 48"

definition digit_char :: "nat \<Rightarrow> char" where
  "digit_char d = char_of (48 + d)"

definition is_space :: "char \<Rightarrow> bool" where
  "is_space c = ((of_char c :: nat) \<in> {9, 10, 11, 12, 13, 28, 29, 30, 31, 32})"

definition is_upper :: "char \<Rightarrow> bool" where
  "is_upper c = (65 \<le> (of_char c :: nat) \<and> (of_char c :: nat) \<le> 90)"

definition lower_char :: "char \<Rightarrow> char" where
  "lower_char c = (if is_upper c then char_of ((of_char c :: nat) + 32) else c)"

text \<open>\<^verbatim>\<open>str.lower()\<close>.\<close>

definition py_lower :: "string \<Rightarrow> string" where
  "py_lower s = map lower_char s"

subsection \<open>\<^verbatim>\<open>str.split(sep)\<close> and \<^verbatim>\<open>sep.join(parts)\<close>\<close>

fun py_split :: "char \<Rightarrow> string \<Rightarrow> string list" where
  "py_split sep [] = [[]]"
| "py_split sep (c # cs) =
     (if c = sep then [] # py_split sep cs
      else (case py_split sep cs of
              [] \<Rightarrow> [[c]]
            | p # ps \<Rightarrow> (c # p) # ps))"

fun py_join :: "string \<Rightarrow> string list \<Rightarrow> string" where
  "py_join sep [] = []"
| "py_join sep [p] = p"
| "py_join sep (p # q # ps) = p @ sep @ py_join sep (q # ps)"

subsection \<open>\<^verbatim>\<open>int(s, 10)\<close> and the format \<^verbatim>\<open>{n:d}\<close>\<close>

text \<open>
  \<^verbatim>\<open>int(s, 10)\<close> strips surrounding whitespace, reads an optional sign and then decimal
  digits, between which single underscores may stand; anything else is a ValueError.
\<close>

definition py_strip :: "string \<Rightarrow> string" where
  "py_strip s = rev (dropWhile is_space (rev (dropWhile is_space s)))"

fun after_digit :: "nat \<Rightarrow> string \<Rightarrow> nat option" where
  "after_digit acc [] = Some acc"
| "after_digit acc [c] = (if is_digit c then Some (10 * acc + digit_value c) else None)"
| "after_digit acc (c # d # cs) =
     (if is_digit c then after_digit (10 * acc + digit_value c) (d # cs)
      else if c = CHR ''_'' \<and> is_digit d then after_digit (10 * acc + digit_value d) cs
      else None)"

definition py_digits :: "string \<Rightarrow> nat option" where
  "py_digits s =
     (case s of
        [] \<Rightarrow> None
      | c # cs \<Rightarrow> if is_digit c then after_digit (digit_value c) cs else None)"

definition py_int :: "string \<Rightarrow> error + int" where
  "py_int s =
     (case py_strip s of
        [] \<Rightarrow> Inl ValueError_invalid_literal
      | c # cs \<Rightarrow>
          if c = CHR ''-'' then
            (case py_digits cs of
               None \<Rightarrow> Inl ValueError_invalid_literal
             | Some n \<Rightarrow> Inr (- int n))
          else if c = CHR ''+'' then
            (case py_digits cs of
               None \<Rightarrow> Inl ValueError_invalid_literal
             | Some n \<Rightarrow> Inr (int n))
          else
            (case py_digits (c # cs) of
               None \<Rightarrow> Inl ValueError_invalid_literal
             | Some n \<Rightarrow> Inr (int n)))"

fun str_nat :: "nat \<Rightarrow> string" where
  "str_nat n = (if n < 10 then [digit_char n] else str_nat (n div 10) @ [digit_char (n mod 10)])"

declare str_nat.simps [simp del]

text \<open>\<^verbatim>\<open>f'{n:d}'\<close> and \<^verbatim>\<open>str(n)\<close> of an integer.\<close>

definition str_int :: "int \<Rightarrow> string" where
  "str_int n = (if n < 0 then CHR ''-'' # str_nat (nat (- n)) else str_nat (nat n))"

section \<open>The attribute container identifier (containers/interface.py)\<close>

record AttributeContainerIdentifier =
  name :: "string option"
  sequence_number :: "int option"

text \<open>
  \<^verbatim>\<open>CopyFromString\<close> mutates the identifier: the result is the exception raised, if any,
  and the identifier afterwards. The tuple assignment stores \<^verbatim>\<open>self.name\<close> before
  \<^verbatim>\<open>int\<close> runs, so a non-numeric sequence leaves the name already overwritten.
\<close>

definition CopyFromString ::
  "AttributeContainerIdentifier \<Rightarrow> string \<Rightarrow> error option \<times> AttributeContainerIdentifier" where
  "CopyFromString self identifier_string =
     (case py_split CHR ''.'' identifier_string of
        [n, sequence_number_str] \<Rightarrow>
          (let self1 = self\<lparr>name := Some n\<rparr> in
           case py_int sequence_number_str of
             Inl e \<Rightarrow> (Some e, self1)
           | Inr v \<Rightarrow> (None, self1\<lparr>sequence_number := Some v\<rparr>))
      | _ \<Rightarrow> (Some ValueError_unpack, self))"

definition CopyToString :: "AttributeContainerIdentifier \<Rightarrow> string option" where
  "CopyToString self =
     (case (name self, sequence_number self) of
        (Some n, Some k) \<Rightarrow> Some (n @ ''.'' @ str_int k)
      | _ \<Rightarrow> None)"

section \<open>The attribute containers manager (containers/manager.py)\<close>

text \<open>
  A container class as the manager and the store see it: its \<^verbatim>\<open>CONTAINER_TYPE\<close> and its
  \<^verbatim>\<open>SCHEMA\<close> (a dict from attribute name to data type, absent on a class without one).
  The class-level dict \<^verbatim>\<open>_attribute_container_classes\<close> is an association list in
  insertion order.
\<close>

record container_class =
  CONTAINER_TYPE :: string
  SCHEMA :: "(string \<times> string) list option"

type_synonym registry = "(string \<times> container_class) list"

datatype pyvalue =
    PyNone
  | PyBool bool
  | PyInt int
  | PyStr string
  | PyIdentifier AttributeContainerIdentifier
  | PyList "pyvalue list"

text \<open>
  An attribute container object: its class, its \<^verbatim>\<open>_identifier\<close> and its other
  attributes, where \<^verbatim>\<open>PyNone\<close> stands for an attribute that is None or not set
  (\<^verbatim>\<open>getattr(container, name, None)\<close> does not tell them apart).
  \<^verbatim>\<open>AttributeContainer.__init__\<close> takes \<^verbatim>\<open>id(self)\<close> as the provisional sequence number.
\<close>

record AttributeContainer =
  cls :: container_class
  container_identifier :: AttributeContainerIdentifier
  attribute_values :: "string \<Rightarrow> pyvalue"

definition new_container :: "container_class \<Rightarrow> int \<Rightarrow> AttributeContainer" where
  "new_container c object_id =
     \<lparr>cls = c,
      container_identifier = \<lparr>name = Some (CONTAINER_TYPE c), sequence_number = Some object_id\<rparr>,
      attribute_values = (\<lambda>_. PyNone)\<rparr>"

definition CreateAttributeContainer ::
  "registry \<Rightarrow> string \<Rightarrow> int \<Rightarrow> error + AttributeContainer" where
  "CreateAttributeContainer classes container_type object_id =
     (case map_of classes container_type of
        None \<Rightarrow> Inl ValueError_unsupported_container_type
      | Some c \<Rightarrow> Inr (new_container c object_id))"

definition DeregisterAttributeContainer :: "registry \<Rightarrow> container_class \<Rightarrow> error + registry" where
  "DeregisterAttributeContainer classes attribute_container_class =
     (let container_type = py_lower (CONTAINER_TYPE attribute_container_class) in
      if map_of classes container_type = None then Inl KeyError_not_set
      else Inr (AList.delete container_type classes))"

definition GetContainerTypes :: "registry \<Rightarrow> string list" where
  "GetContainerTypes classes = map fst classes"

definition GetSchema :: "registry \<Rightarrow> string \<Rightarrow> error + (string \<times> string) list" where
  "GetSchema classes container_type =
     (case map_of classes container_type of
        None \<Rightarrow> Inl ValueError_unsupported_container_type
      | Some c \<Rightarrow> Inr (case SCHEMA c of None \<Rightarrow> [] | Some schema \<Rightarrow> schema))"

definition RegisterAttributeContainer :: "registry \<Rightarrow> container_class \<Rightarrow> error + registry" where
  "RegisterAttributeContainer classes attribute_container_class =
     (let container_type = py_lower (CONTAINER_TYPE attribute_container_class) in
      if map_of classes container_type \<noteq> None then Inl KeyError_already_set
      else Inr (AList.update container_type attribute_container_class classes))"

text \<open>The loop stops at the first KeyError; the classes before it stay registered.\<close>

fun RegisterAttributeContainers ::
  "registry \<Rightarrow> container_class list \<Rightarrow> error option \<times> registry" where
  "RegisterAttributeContainers classes [] = (None, classes)"
| "RegisterAttributeContainers classes (c # cs) =
     (case RegisterAttributeContainer classes c of
        Inl e \<Rightarrow> (Some e, classes)
      | Inr classes' \<Rightarrow> RegisterAttributeContainers classes' cs)"

text \<open>
  The registries a program can reach: from the empty class-level dict, any sequence of
  registrations and deregistrations; a call that raises leaves the dict as it was.
\<close>

datatype manager_call = Register container_class | Deregister container_class

fun manager_step :: "registry \<Rightarrow> manager_call \<Rightarrow> registry" where
  "manager_step classes (Register c) =
     (case RegisterAttributeContainer classes c of Inl _ \<Rightarrow> classes | Inr classes' \<Rightarrow> classes')"
| "manager_step classes (Deregister c) =
     (case DeregisterAttributeContainer classes c of Inl _ \<Rightarrow> classes | Inr classes' \<Rightarrow> classes')"

definition manager_run :: "manager_call list \<Rightarrow> registry" where
  "manager_run calls = foldl manager_step [] calls"

text \<open>A class whose container type is capitalised.\<close>

definition event_class :: container_class where
  "event_class = \<lparr>CONTAINER_TYPE = ''Event'', SCHEMA = Some [(''a'', ''int'')]\<rparr>"

section \<open>The filter translator (sqlite\_store.py, PythonAST2SQL)\<close>

text \<open>
  The expression nodes of Python's \<^verbatim>\<open>ast\<close> module, as \<^verbatim>\<open>ast.parse(..., mode='eval')\<close>
  builds them: every literal is a \<^verbatim>\<open>Constant\<close> (the classes \<^verbatim>\<open>Num\<close> and \<^verbatim>\<open>Str\<close> the
  function also tests are deprecated names for constants, which the \<^verbatim>\<open>Constant\<close> branch
  has already taken). A float, complex or bytes constant is carried as the text
  \<^verbatim>\<open>str()\<close> gives for it. The node classes that are not named here (lambda, dict and set
  displays, comprehensions, f-strings, await, yield, starred, slices, named
  expressions) are \<^verbatim>\<open>OtherNode\<close>.
\<close>

datatype const_value =
    ConstStr string
  | ConstInt int
  | ConstBool bool
  | ConstNone
  | ConstEllipsis
  | ConstFloat string
  | ConstComplex string
  | ConstBytes string

datatype boolop = And | Or

datatype cmpop = Eq | NotEq | Lt | LtE | Gt | GtE | Is | IsNot | In | NotIn

datatype operator =
  Add | Sub | Mult | MatMult | Div | Mod | Pow | LShift | RShift | BitOr | BitXor | BitAnd | FloorDiv

datatype unaryop = Invert | Not_op | UAdd | USub

datatype expr =
    BoolOp boolop "expr list"
  | Compare expr "cmpop list" "expr list"
  | Constant const_value
  | Name string
  | BinOp expr operator expr
  | UnaryOp unaryop expr
  | Call expr "expr list"
  | Attribute expr string
  | Subscript expr expr
  | IfExp expr expr expr
  | ListNode "expr list"
  | TupleNode "expr list"
  | OtherNode

fun str_constant :: "const_value \<Rightarrow> string" where
  "str_constant (ConstStr s) = s"
| "str_constant (ConstInt n) = str_int n"
| "str_constant (ConstBool b) = (if b then ''True'' else ''False'')"
| "str_constant ConstNone = ''None''"
| "str_constant ConstEllipsis = ''Ellipsis''"
| "str_constant (ConstFloat text) = text"
| "str_constant (ConstComplex text) = text"
| "str_constant (ConstBytes text) = text"

text \<open>A list comprehension: the first element that raises ends it.\<close>

fun collect :: "(error + 'a) list \<Rightarrow> error + 'a list" where
  "collect [] = Inr []"
| "collect (Inl e # rs) = Inl e"
| "collect (Inr x # rs) = (case collect rs of Inl e \<Rightarrow> Inl e | Inr xs \<Rightarrow> Inr (x # xs))"

fun PythonAST2SQL :: "expr \<Rightarrow> error + string" where
  "PythonAST2SQL (BoolOp op vals) =
     (let operand = (case op of And \<Rightarrow> '' AND '' | Or \<Rightarrow> '' OR '') in
      case collect (map PythonAST2SQL vals) of
        Inl e \<Rightarrow> Inl e
      | Inr parts \<Rightarrow> Inr (py_join operand parts))"
| "PythonAST2SQL (Compare left ops comparators) =
     (case ops of
        [op] \<Rightarrow>
          (case (case op of Eq \<Rightarrow> Some '' = '' | NotEq \<Rightarrow> Some '' <> '' | _ \<Rightarrow> None) of
             None \<Rightarrow> Inl TypeError
           | Some operator \<Rightarrow>
               (case comparators of
                  [comparator] \<Rightarrow>
                    (case PythonAST2SQL left of
                       Inl e \<Rightarrow> Inl e
                     | Inr sql_left \<Rightarrow>
                         (case PythonAST2SQL comparator of
                            Inl e \<Rightarrow> Inl e
                          | Inr sql_right \<Rightarrow> Inr (py_join operator [sql_left, sql_right])))
                | _ \<Rightarrow> Inl TypeError))
      | _ \<Rightarrow> Inl TypeError)"
| "PythonAST2SQL (Constant (ConstStr s)) = Inr ([CHR 0x22] @ s @ [CHR 0x22])"
| "PythonAST2SQL (Constant v) = Inr (str_constant v)"
| "PythonAST2SQL (Name ident) = Inr ident"
| "PythonAST2SQL _ = Inl TypeError"

text \<open>
  The expressions the translator accepts, read off its branches: a \<^verbatim>\<open>BoolOp\<close> whose
  values it accepts, a comparison with the single operator \<^verbatim>\<open>==\<close> or \<^verbatim>\<open>!=\<close> and a single
  comparator between expressions it accepts, any constant and any name.
\<close>

fun translatable :: "expr \<Rightarrow> bool" where
  "translatable (BoolOp op vals) = list_all translatable vals"
| "translatable (Compare left ops comparators) =
     ((ops = [Eq] \<or> ops = [NotEq]) \<and> length comparators = 1 \<and>
      translatable left \<and> list_all translatable comparators)"
| "translatable (Constant v) = True"
| "translatable (Name ident) = True"
| "translatable _ = False"

text \<open>
  The shapes the specification lists as supported: conjunction, disjunction, equality,
  inequality, attribute name, and a literal that is a string or a number.
\<close>

fun is_string_or_number :: "const_value \<Rightarrow> bool" where
  "is_string_or_number (ConstStr s) = True"
| "is_string_or_number (ConstInt n) = True"
| "is_string_or_number (ConstFloat text) = True"
| "is_string_or_number (ConstComplex text) = True"
| "is_string_or_number v = False"

fun listed_shape :: "expr \<Rightarrow> bool" where
  "listed_shape (BoolOp op vals) = list_all listed_shape vals"
| "listed_shape (Compare left ops comparators) =
     ((ops = [Eq] \<or> ops = [NotEq]) \<and> length comparators = 1 \<and>
      listed_shape left \<and> list_all listed_shape comparators)"
| "listed_shape (Constant v) = is_string_or_number v"
| "listed_shape (Name ident) = True"
| "listed_shape _ = False"

text \<open>The parse of \<^verbatim>\<open>a == 1 and b == "x"\<close>.\<close>

definition example_filter :: expr where
  "example_filter =
     BoolOp And
       [Compare (Name ''a'') [Eq] [Constant (ConstInt 1)],
        Compare (Name ''b'') [Eq] [Constant (ConstStr ''x'')]]"

section \<open>The SQLite schema helper (sqlite\_store.py, SQLiteSchemaHelper)\<close>

text \<open>
  The module \<^verbatim>\<open>acstore.helpers.schema\<close> is not among the sources. What the store calls
  of it is a parameter: which data types are registered (\<^verbatim>\<open>HasDataType\<close>) and the JSON
  serializer of a data type (\<^verbatim>\<open>GetAttributeSerializer(data_type, 'json')\<close>).
\<close>

record SchemaHelper =
  HasDataType :: "string \<Rightarrow> bool"
  json_SerializeValue :: "string \<Rightarrow> pyvalue \<Rightarrow> error + pyvalue"
  json_DeserializeValue :: "string \<Rightarrow> pyvalue \<Rightarrow> error + pyvalue"

text \<open>A helper that knows the five data types the store itself names, and no JSON type.\<close>

definition basic_schema_helper :: SchemaHelper where
  "basic_schema_helper =
     \<lparr>HasDataType =
        (\<lambda>t. t \<in> set [''AttributeContainerIdentifier'', ''bool'', ''int'', ''str'', ''timestamp'']),
      json_SerializeValue = (\<lambda>t v. Inl IOError_unsupported_data_type),
      json_DeserializeValue = (\<lambda>t v. Inl IOError_unsupported_data_type)\<rparr>"

definition MAPPINGS :: "(string \<times> string) list" where
  "MAPPINGS =
     [(''bool'', ''INTEGER''), (''int'', ''INTEGER''), (''str'', ''TEXT''),
      (''timestamp'', ''BIGINT'')]"

definition GetStorageDataType :: "string \<Rightarrow> string" where
  "GetStorageDataType data_type =
     (case map_of MAPPINGS data_type of None \<Rightarrow> ''TEXT'' | Some t \<Rightarrow> t)"

text \<open>\<^verbatim>\<open>bool(value)\<close>, \<^verbatim>\<open>int(value)\<close> and \<^verbatim>\<open>int(value, 10)\<close> on a runtime value.\<close>

fun py_bool :: "pyvalue \<Rightarrow> bool" where
  "py_bool PyNone = False"
| "py_bool (PyBool b) = b"
| "py_bool (PyInt n) = (n \<noteq> 0)"
| "py_bool (PyStr s) = (s \<noteq> [])"
| "py_bool (PyIdentifier i) = True"
| "py_bool (PyList xs) = (xs \<noteq> [])"

fun py_int_of :: "pyvalue \<Rightarrow> error + int" where
  "py_int_of (PyBool b) = Inr (if b then 1 else 0)"
| "py_int_of (PyInt n) = Inr n"
| "py_int_of (PyStr s) = py_int s"
| "py_int_of v = Inl TypeError"

fun py_int_base10 :: "pyvalue \<Rightarrow> error + int" where
  "py_int_base10 (PyStr s) = py_int s"
| "py_int_base10 v = Inl TypeError"

fun is_IOError :: "error \<Rightarrow> bool" where
  "is_IOError IOError_missing_format_version = True"
| "is_IOError IOError_invalid_format_version = True"
| "is_IOError IOError_too_old_to_write = True"
| "is_IOError IOError_too_old_to_read = True"
| "is_IOError IOError_too_new = True"
| "is_IOError IOError_unsupported_serialization_format = True"
| "is_IOError IOError_unsupported_attribute_container_type = True"
| "is_IOError IOError_unsupported_attribute_data_type = True"
| "is_IOError IOError_unsupported_data_type = True"
| "is_IOError IOError_unable_to_query = True"
| "is_IOError IOError_already_opened = True"
| "is_IOError IOError_already_closed = True"
| "is_IOError IOError_closed_store = True"
| "is_IOError IOError_read_only_store = True"
| "is_IOError e = False"

definition DeserializeValue :: "SchemaHelper \<Rightarrow> string \<Rightarrow> pyvalue \<Rightarrow> error + pyvalue" where
  "DeserializeValue helper data_type v =
     (if \<not> HasDataType helper data_type then Inl IOError_unsupported_data_type
      else if v = PyNone then Inr v
      else if data_type = ''AttributeContainerIdentifier'' then
        (case v of
           PyStr text \<Rightarrow>
             (case CopyFromString \<lparr>name = None, sequence_number = None\<rparr> text of
                (Some e, i) \<Rightarrow> Inl e
              | (None, i) \<Rightarrow> Inr (PyIdentifier i))
         | _ \<Rightarrow> Inl AttributeError)
      else if data_type = ''bool'' then Inr (PyBool (py_bool v))
      else if map_of MAPPINGS data_type = None then json_DeserializeValue helper data_type v
      else Inr v)"

definition SerializeValue :: "SchemaHelper \<Rightarrow> string \<Rightarrow> pyvalue \<Rightarrow> error + pyvalue" where
  "SerializeValue helper data_type v =
     (if \<not> HasDataType helper data_type then Inl IOError_unsupported_data_type
      else if v = PyNone then Inr v
      else
        (case (data_type = ''AttributeContainerIdentifier'', v) of
           (True, PyIdentifier i) \<Rightarrow>
             Inr (case CopyToString i of None \<Rightarrow> PyNone | Some text \<Rightarrow> PyStr text)
         | _ \<Rightarrow>
             if data_type = ''bool'' then
               (case py_int_of v of Inl e \<Rightarrow> Inl e | Inr n \<Rightarrow> Inr (PyInt n))
             else if map_of MAPPINGS data_type = None then json_SerializeValue helper data_type v
             else Inr v))"

section \<open>The database behind the connection\<close>

text \<open>
  SQLite as the store uses it. A table has the columns of its \<^verbatim>\<open>CREATE TABLE\<close> besides
  \<^verbatim>\<open>_identifier\<close>, and its rows in insertion order: the store never deletes, so the row
  at position \<open>i\<close> (from 0) has \<^verbatim>\<open>_identifier\<close> and rowid \<open>i + 1\<close>. Values are stored
  as they are bound (the conversions of column affinity are not modelled). The tables
  of the container types are listed under their names in the order they were created;
  the metadata table is kept apart from them. A statement fails with
  \<^verbatim>\<open>sqlite3.OperationalError\<close> when it does not parse, names a table or column that does
  not exist, creates a table that exists, or writes through a read-only connection, and
  with \<^verbatim>\<open>sqlite3.ProgrammingError\<close> when the number of bound values is not the number of
  placeholders. The statements that change the database are logged in the order they
  ran.
\<close>

record table =
  column_names :: "string list"
  table_rows :: "pyvalue list list"

datatype statement =
    CreateTable string
  | InsertInto string nat
  | UpdateRow string int
  | CreateMetadataTable
  | InsertMetadata string
  | UpdateMetadata
  | Commit

record database =
  metadata :: "(string \<times> pyvalue) list option"
  tables :: "(string \<times> table) list"
  read_only_mode :: bool
  statements :: "statement list"

definition empty_database :: database where
  "empty_database =
     \<lparr>metadata = None, tables = [], read_only_mode = False, statements = []\<rparr>"

text \<open>
  The store writes the name of a container type into its statements as it is, without
  quotes in \<^verbatim>\<open>CREATE TABLE\<close>, \<^verbatim>\<open>INSERT INTO\<close>, \<^verbatim>\<open>UPDATE\<close> and \<^verbatim>\<open>FROM\<close>, and between
  double quotes in \<^verbatim>\<open>_HAS_TABLE_QUERY\<close>. A plain name is one that SQLite reads in all of
  these places as the name of the table so called: lower-case letters, digits and
  underscores after a first lower-case letter, no keyword of SQLite, no name that begins
  with \<^verbatim>\<open>sqlite_\<close>, no column of \<^verbatim>\<open>sqlite_master\<close> and no name of its rowid, and not the name
  of the metadata table. The tables are looked up under the name as it is written, which
  is what SQLite does for plain names; what it makes of other names where they stand
  without quotes (a name with a dot is a table of a schema, a keyword does not parse,
  names that differ in case are one table) is not modelled.
\<close>

definition sqlite_master_columns :: "string list" where
  "sqlite_master_columns = [''type'', ''name'', ''tbl_name'', ''rootpage'', ''sql'']"

definition rowid_names :: "string list" where
  "rowid_names = [''rowid'', ''oid'', ''_rowid_'']"




text \<open>The \<^verbatim>\<open>name\<close> column of the rows of \<^verbatim>\<open>sqlite_master\<close> whose \<^verbatim>\<open>type\<close> is \<^verbatim>\<open>table\<close>.\<close>

definition sqlite_master_names :: "database \<Rightarrow> string list" where
  "sqlite_master_names db =
     (case metadata db of None \<Rightarrow> [] | Some metadata_rows \<Rightarrow> [''metadata'']) @
     map fst (tables db)"

text \<open>
  \<^verbatim>\<open>_HAS_TABLE_QUERY\<close> is
  \<^verbatim>\<open>SELECT name FROM sqlite_master WHERE type = "table" AND name = "{0:s}"\<close>. SQLite
  reads a token between double quotes as a column when the table has one of that name,
  whatever the case of its letters, and as a string otherwise. \<^verbatim>\<open>sqlite_master\<close> has no
  column \<^verbatim>\<open>table\<close>, so the first comparison is with the string. The second depends on
  the name given: \<^verbatim>\<open>name\<close> and \<^verbatim>\<open>tbl_name\<close> compare the name of each table with itself,
  \<^verbatim>\<open>type\<close> compares it with the string \<^verbatim>\<open>table\<close>, \<^verbatim>\<open>rootpage\<close>, \<^verbatim>\<open>sql\<close> and the names of
  the rowid compare it with what no table name equals, and every other name is compared
  as a string with the names of the tables. (A name that holds a double quote is not
  modelled.)
\<close>

definition db_has_table :: "database \<Rightarrow> string \<Rightarrow> bool" where
  "db_has_table db table_name =
     (if py_lower table_name = ''name'' \<or> py_lower table_name = ''tbl_name''
      then sqlite_master_names db \<noteq> []
      else if py_lower table_name = ''type'' then ''table'' \<in> set (sqlite_master_names db)
      else if py_lower table_name \<in> set sqlite_master_columns \<or>
              py_lower table_name \<in> set rowid_names
      then False
      else table_name \<in> set (sqlite_master_names db))"

definition known_columns :: "table \<Rightarrow> string list \<Rightarrow> bool" where
  "known_columns t cols = (cols \<noteq> [] \<and> list_all (\<lambda>c. c \<in> set (column_names t)) cols)"

definition db_create_table :: "database \<Rightarrow> string \<Rightarrow> string list \<Rightarrow> error + database" where
  "db_create_table db table_name cols =
     (if table_name \<in> set (sqlite_master_names db) \<or> \<not> distinct (''_identifier'' # cols) \<or>
         read_only_mode db
      then Inl OperationalError
      else Inr (db\<lparr>tables := tables db @ [(table_name, \<lparr>column_names = cols, table_rows = []\<rparr>)],
                   statements := statements db @ [CreateTable table_name]\<rparr>))"

definition cell :: "string list \<Rightarrow> pyvalue list \<Rightarrow> string \<Rightarrow> pyvalue" where
  "cell cols vals c = (case map_of (zip cols vals) c of None \<Rightarrow> PyNone | Some v \<Rightarrow> v)"

definition db_insert ::
  "database \<Rightarrow> string \<Rightarrow> string list \<Rightarrow> pyvalue list list \<Rightarrow> error + database" where
  "db_insert db table_name cols rows =
     (case map_of (tables db) table_name of
        None \<Rightarrow> Inl OperationalError
      | Some t \<Rightarrow>
          if rows = [] \<or> \<not> known_columns t cols then Inl OperationalError
          else if \<not> list_all (\<lambda>r. length r = length cols) rows then Inl ProgrammingError
          else if read_only_mode db then Inl OperationalError
          else Inr (db\<lparr>tables := AList.update table_name
                          (t\<lparr>table_rows := table_rows t @
                              map (\<lambda>r. map (cell cols r) (column_names t)) rows\<rparr>) (tables db),
                       statements := statements db @ [InsertInto table_name (length rows)]\<rparr>))"

definition db_select_row ::
  "database \<Rightarrow> string \<Rightarrow> string list \<Rightarrow> int \<Rightarrow> error + pyvalue list option" where
  "db_select_row db table_name cols row_number =
     (case map_of (tables db) table_name of
        None \<Rightarrow> Inl OperationalError
      | Some t \<Rightarrow>
          if \<not> known_columns t cols then Inl OperationalError
          else if 1 \<le> row_number \<and> row_number \<le> int (length (table_rows t))
          then Inr (Some (map (cell (column_names t) (table_rows t ! nat (row_number - 1))) cols))
          else Inr None)"

definition db_update_row ::
  "database \<Rightarrow> string \<Rightarrow> string list \<Rightarrow> pyvalue list \<Rightarrow> int \<Rightarrow> error + database" where
  "db_update_row db table_name cols vals row_number =
     (case map_of (tables db) table_name of
        None \<Rightarrow> Inl OperationalError
      | Some t \<Rightarrow>
          if \<not> known_columns t cols then Inl OperationalError
          else if length vals \<noteq> length cols then Inl ProgrammingError
          else if read_only_mode db then Inl OperationalError
          else Inr (db\<lparr>tables := AList.update table_name
                          (if 1 \<le> row_number \<and> row_number \<le> int (length (table_rows t))
                           then t\<lparr>table_rows := (table_rows t)[nat (row_number - 1) :=
                                  map (\<lambda>c. if c \<in> set cols then cell cols vals c
                                            else cell (column_names t)
                                              (table_rows t ! nat (row_number - 1)) c)
                                    (column_names t)]\<rparr>
                           else t) (tables db),
                       statements := statements db @ [UpdateRow table_name row_number]\<rparr>))"

text \<open>\<^verbatim>\<open>SELECT MAX(_ROWID_)\<close>: NULL on a table without rows.\<close>

definition db_max_rowid :: "database \<Rightarrow> string \<Rightarrow> error + int option" where
  "db_max_rowid db table_name =
     (case map_of (tables db) table_name of
        None \<Rightarrow>
          if table_name = ''metadata'' then
            (case metadata db of
               None \<Rightarrow> Inl OperationalError
             | Some metadata_rows \<Rightarrow>
                 Inr (if metadata_rows = [] then None else Some (int (length metadata_rows))))
          else Inl OperationalError
      | Some t \<Rightarrow>
          Inr (if table_rows t = [] then None else Some (int (length (table_rows t)))))"

definition db_commit :: "database \<Rightarrow> database" where
  "db_commit db = db\<lparr>statements := statements db @ [Commit]\<rparr>"

text \<open>The two exception classes the store's \<^verbatim>\<open>except\<close> clauses turn into IOError.\<close>

definition query_error :: "error \<Rightarrow> error" where
  "query_error e = (if e = OperationalError then IOError_unable_to_query else e)"

section \<open>The store (sqlite\_store.py, SQLiteAttributeContainerStore)\<close>

text \<open>
  The class constants that gate a stored format version are class attributes, read
  through \<^verbatim>\<open>self\<close>; the store object carries them.
\<close>

record format_versions =
  FORMAT_VERSION :: int
  APPEND_COMPATIBLE_FORMAT_VERSION :: int
  UPGRADE_COMPATIBLE_FORMAT_VERSION :: int
  READ_COMPATIBLE_FORMAT_VERSION :: int

definition class_format_versions :: format_versions where
  "class_format_versions =
     \<lparr>FORMAT_VERSION = 20230312,
      APPEND_COMPATIBLE_FORMAT_VERSION = 20221023,
      UPGRADE_COMPATIBLE_FORMAT_VERSION = 20221023,
      READ_COMPATIBLE_FORMAT_VERSION = 20221023\<rparr>"

definition MAXIMUM_CACHED_CONTAINERS :: nat where
  "MAXIMUM_CACHED_CONTAINERS = 32 * 1024"

definition MAXIMUM_WRITE_CACHE_SIZE :: nat where
  "MAXIMUM_WRITE_CACHE_SIZE = 50"

text \<open>
  An entry of a write cache list: the list starts with the column names and goes on
  with one list of values per container.
\<close>

datatype write_cache_item = ColumnNames "string list" | RowValues "pyvalue list"

fun item_values :: "write_cache_item \<Rightarrow> pyvalue list" where
  "item_values (ColumnNames cols) = map PyStr cols"
| "item_values (RowValues vals) = vals"

fun str_of :: "pyvalue \<Rightarrow> string option" where
  "str_of (PyStr text) = Some text"
| "str_of v = None"

text \<open>
  What \<^verbatim>\<open>', '.join(column_names)\<close> accepts as column names: a list of strings. The
  first entry of a write cache list is a list of values only after a flush has failed.
\<close>

fun item_names :: "write_cache_item \<Rightarrow> string list option" where
  "item_names (ColumnNames cols) = Some cols"
| "item_names (RowValues vals) =
     (if list_all (\<lambda>v. str_of v \<noteq> None) vals then Some (map (\<lambda>v. the (str_of v)) vals)
      else None)"

text \<open>
  The store object. Attribute containers are objects with identity: the store and its
  caller hold references (addresses into \<open>objects\<close>), so a container the cache holds
  is the very object the caller may go on changing. \<open>sequence_numbers\<close> is the
  \<^verbatim>\<open>collections.Counter\<close> of the base class, 0 for a type never counted; the read cache
  is the \<^verbatim>\<open>OrderedDict\<close> with its first entry first; the write cache is the dict of
  lists, in insertion order. The connection and its cursor are the database, or None.
\<close>

record store =
  objects :: "nat \<Rightarrow> AttributeContainer"
  next_object :: nat
  containers_manager :: registry
  schema_helper :: SchemaHelper
  versions :: format_versions
  sequence_numbers :: "string \<Rightarrow> int"
  attribute_container_cache :: "(string \<times> nat) list"
  connection :: "database option"
  is_open :: bool
  read_only :: bool
  write_cache :: "(string \<times> write_cache_item list) list"
  format_version :: int
  serialization_format :: string

text \<open>\<^verbatim>\<open>__init__\<close>, for a given registry of container classes and schema helper.\<close>

definition init_store :: "registry \<Rightarrow> SchemaHelper \<Rightarrow> format_versions \<Rightarrow> store" where
  "init_store classes helper vs =
     \<lparr>objects = (\<lambda>_. new_container \<lparr>CONTAINER_TYPE = [], SCHEMA = None\<rparr> 0),
      next_object = 0,
      containers_manager = classes,
      schema_helper = helper,
      versions = vs,
      sequence_numbers = (\<lambda>_. 0),
      attribute_container_cache = [],
      connection = None,
      is_open = False,
      read_only = True,
      write_cache = [],
      format_version = FORMAT_VERSION vs,
      serialization_format = ''json''\<rparr>"

text \<open>The caller creates a container object, sets an attribute, sets an identifier.\<close>

definition allocate :: "store \<Rightarrow> AttributeContainer \<Rightarrow> nat \<times> store" where
  "allocate s container =
     (next_object s,
      s\<lparr>objects := (objects s)(next_object s := container), next_object := Suc (next_object s)\<rparr>)"

definition setattr :: "store \<Rightarrow> nat \<Rightarrow> string \<Rightarrow> pyvalue \<Rightarrow> store" where
  "setattr s ref attribute_name v =
     s\<lparr>objects := (objects s)(ref := (objects s ref)
          \<lparr>attribute_values := (attribute_values (objects s ref))(attribute_name := v)\<rparr>)\<rparr>"

definition SetIdentifier :: "store \<Rightarrow> nat \<Rightarrow> AttributeContainerIdentifier \<Rightarrow> store" where
  "SetIdentifier s ref i =
     s\<lparr>objects := (objects s)(ref := (objects s ref)\<lparr>container_identifier := i\<rparr>)\<rparr>"

subsection \<open>The helpers of the base class\<close>

text \<open>
  Modelled from the spec: the base class \<^verbatim>\<open>acstore.interface.AttributeContainerStore\<close> is
  not among the sources. The schema of a type is what the registry declares, or the
  empty mapping when the type is not registered; the next sequence number of a type
  counts one up from the number of containers of that type (the first container
  written gets 1, as \<^verbatim>\<open>_WriteNewAttributeContainer\<close> tests), and \<^verbatim>\<open>Open\<close> seeds the
  counter with the number of stored containers.
\<close>

definition GetAttributeContainerSchema :: "store \<Rightarrow> string \<Rightarrow> (string \<times> string) list" where
  "GetAttributeContainerSchema s container_type =
     (case GetSchema (containers_manager s) container_type of
        Inl e \<Rightarrow> []
      | Inr schema \<Rightarrow> schema)"

definition GetAttributeContainerNextSequenceNumber :: "store \<Rightarrow> string \<Rightarrow> int \<times> store" where
  "GetAttributeContainerNextSequenceNumber s container_type =
     (sequence_numbers s container_type + 1,
      s\<lparr>sequence_numbers :=
          (sequence_numbers s)(container_type := sequence_numbers s container_type + 1)\<rparr>)"

definition SetAttributeContainerNextSequenceNumber :: "store \<Rightarrow> string \<Rightarrow> int \<Rightarrow> store" where
  "SetAttributeContainerNextSequenceNumber s container_type next_sequence_number =
     s\<lparr>sequence_numbers := (sequence_numbers s)(container_type := next_sequence_number)\<rparr>"

subsection \<open>The read cache\<close>

text \<open>\<^verbatim>\<open>OrderedDict.move_to_end(key, last=False)\<close>.\<close>

definition move_to_front :: "string \<Rightarrow> (string \<times> nat) list \<Rightarrow> (string \<times> nat) list" where
  "move_to_front k al =
     (case map_of al k of None \<Rightarrow> al | Some v \<Rightarrow> (k, v) # AList.delete k al)"

definition lookup_key_of :: "string \<Rightarrow> int \<Rightarrow> string" where
  "lookup_key_of container_type index = container_type @ ''.'' @ str_int index"

definition CacheAttributeContainerByIndex :: "store \<Rightarrow> nat \<Rightarrow> int \<Rightarrow> store" where
  "CacheAttributeContainerByIndex s ref index =
     (let cache0 = attribute_container_cache s;
          cache1 = (if length cache0 \<ge> MAXIMUM_CACHED_CONTAINERS then butlast cache0 else cache0);
          lookup_key = lookup_key_of (CONTAINER_TYPE (cls (objects s ref))) index
      in s\<lparr>attribute_container_cache :=
             move_to_front lookup_key (AList.update lookup_key ref cache1)\<rparr>)"

definition GetCachedAttributeContainer :: "store \<Rightarrow> string \<Rightarrow> int \<Rightarrow> nat option \<times> store" where
  "GetCachedAttributeContainer s container_type index =
     (let lookup_key = lookup_key_of container_type index in
      case map_of (attribute_container_cache s) lookup_key of
        None \<Rightarrow> (None, s)
      | Some ref \<Rightarrow>
          (Some ref,
           s\<lparr>attribute_container_cache :=
               move_to_front lookup_key (attribute_container_cache s)\<rparr>))"

subsection \<open>Tables and the write cache\<close>

definition HasTable :: "store \<Rightarrow> string \<Rightarrow> error + bool" where
  "HasTable s table_name =
     (case connection s of
        None \<Rightarrow> Inl AttributeError
      | Some db \<Rightarrow> Inr (db_has_table db table_name))"

definition CreateAttributeContainerTable :: "store \<Rightarrow> string \<Rightarrow> error option \<times> store" where
  "CreateAttributeContainerTable s container_type =
     (let schema = GetAttributeContainerSchema s container_type in
      if schema = [] then (Some IOError_unsupported_attribute_container_type, s)
      else
        (case connection s of
           None \<Rightarrow> (Some AttributeError, s)
         | Some db \<Rightarrow>
             (case db_create_table db container_type (map fst (sort_key fst schema)) of
                Inl e \<Rightarrow> (Some (query_error e), s)
              | Inr db' \<Rightarrow> (None, s\<lparr>connection := Some db'\<rparr>))))"

text \<open>
  \<^verbatim>\<open>_FlushWriteCache\<close> pops the column names off the list it is given, in place, and
  inserts the remaining entries with one statement. The list after the pop is returned
  with the exception raised, if any: the entries stay in the list.
\<close>

definition FlushWriteCache ::
  "store \<Rightarrow> string \<Rightarrow> write_cache_item list \<Rightarrow> error option \<times> write_cache_item list \<times> store" where
  "FlushWriteCache s container_type cached =
     (case cached of
        [] \<Rightarrow> (Some IndexError, [], s)
      | item # rest \<Rightarrow>
          (case item_names item of
             None \<Rightarrow> (Some TypeError, rest, s)
           | Some cols \<Rightarrow>
               (case connection s of
                  None \<Rightarrow> (Some AttributeError, rest, s)
                | Some db \<Rightarrow>
                    (case db_insert db container_type cols (map item_values rest) of
                       Inl e \<Rightarrow> (Some (query_error e), rest, s)
                     | Inr db' \<Rightarrow> (None, rest, s\<lparr>connection := Some db'\<rparr>)))))"

definition CacheAttributeContainerForWrite ::
  "store \<Rightarrow> string \<Rightarrow> string list \<Rightarrow> pyvalue list \<Rightarrow> error option \<times> store" where
  "CacheAttributeContainerForWrite s container_type cols vals =
     (let held = map_of (write_cache s) container_type;
          cached = (case held of None \<Rightarrow> [ColumnNames cols] | Some l \<Rightarrow> l) @ [RowValues vals];
          s1 = (if held = None then s
                else s\<lparr>write_cache := AList.update container_type cached (write_cache s)\<rparr>)
      in if length cached \<ge> MAXIMUM_WRITE_CACHE_SIZE then
           (case FlushWriteCache s1 container_type cached of
              (err, rest, s2) \<Rightarrow>
                (let s3 = (if held = None then s2
                           else s2\<lparr>write_cache :=
                                   AList.update container_type rest (write_cache s2)\<rparr>)
                 in case err of
                      Some e \<Rightarrow> (Some e, s3)
                    | None \<Rightarrow>
                        (None, s3\<lparr>write_cache :=
                            AList.update container_type [ColumnNames cols] (write_cache s3)\<rparr>)))
         else (None, s1\<lparr>write_cache := AList.update container_type cached (write_cache s1)\<rparr>))"

definition CommitWriteCache :: "store \<Rightarrow> string \<Rightarrow> error option \<times> store" where
  "CommitWriteCache s container_type =
     (let cached = (case map_of (write_cache s) container_type of None \<Rightarrow> [] | Some l \<Rightarrow> l) in
      if length cached > 1 then
        (case FlushWriteCache s container_type cached of
           (err, rest, s1) \<Rightarrow>
             (case err of
                Some e \<Rightarrow>
                  (Some e, s1\<lparr>write_cache := AList.update container_type rest (write_cache s1)\<rparr>)
              | None \<Rightarrow>
                  (None, s1\<lparr>write_cache := AList.delete container_type (write_cache s1)\<rparr>)))
      else (None, s))"

fun flush_items :: "store \<Rightarrow> (string \<times> write_cache_item list) list \<Rightarrow> error option \<times> store" where
  "flush_items s [] = (None, s)"
| "flush_items s ((container_type, cached) # others) =
     (if length cached > 1 then
        (case FlushWriteCache s container_type cached of
           (err, rest, s1) \<Rightarrow>
             (let s2 = s1\<lparr>write_cache := AList.update container_type rest (write_cache s1)\<rparr> in
              case err of
                Some e \<Rightarrow> (Some e, s2)
              | None \<Rightarrow> flush_items s2 others))
      else flush_items s others)"

definition Flush :: "store \<Rightarrow> error option \<times> store" where
  "Flush s =
     (case flush_items s (write_cache s) of
        (Some e, s1) \<Rightarrow> (Some e, s1)
      | (None, s1) \<Rightarrow>
          (case connection s1 of
             None \<Rightarrow> (Some AttributeError, s1\<lparr>write_cache := []\<rparr>)
           | Some db \<Rightarrow> (None, s1\<lparr>write_cache := [], connection := Some (db_commit db)\<rparr>)))"

subsection \<open>Rows to containers and back\<close>

text \<open>
  The loop over \<^verbatim>\<open>sorted(schema.items())\<close> (the keys of a dict are distinct, so the
  items are sorted by name): an IOError of the helper is raised again as the IOError
  that names the attribute; any other exception passes.
\<close>

fun serialize_attributes ::
  "SchemaHelper \<Rightarrow> (string \<times> string) list \<Rightarrow> AttributeContainer \<Rightarrow> error + pyvalue list" where
  "serialize_attributes helper [] container = Inr []"
| "serialize_attributes helper ((attribute_name, data_type) # others) container =
     (case SerializeValue helper data_type (attribute_values container attribute_name) of
        Inl e \<Rightarrow> Inl (if is_IOError e then IOError_unsupported_attribute_data_type else e)
      | Inr row_value \<Rightarrow>
          (case serialize_attributes helper others container of
             Inl e \<Rightarrow> Inl e
           | Inr row_values \<Rightarrow> Inr (row_value # row_values)))"

fun deserialize_columns ::
  "SchemaHelper \<Rightarrow> (string \<times> string) list \<Rightarrow> (string \<times> pyvalue) list \<Rightarrow>
   AttributeContainer \<Rightarrow> error + AttributeContainer" where
  "deserialize_columns helper schema [] container = Inr container"
| "deserialize_columns helper schema ((column, row_value) # others) container =
     (if row_value = PyNone then deserialize_columns helper schema others container
      else
        (case map_of schema column of
           None \<Rightarrow> Inl KeyError_schema
         | Some data_type \<Rightarrow>
             (case DeserializeValue helper data_type row_value of
                Inl e \<Rightarrow> Inl (if is_IOError e then IOError_unsupported_attribute_data_type else e)
              | Inr attribute_value \<Rightarrow>
                  deserialize_columns helper schema others
                    (container\<lparr>attribute_values :=
                       (attribute_values container)(column := attribute_value)\<rparr>))))"

text \<open>
  The container built from a row; the new object's \<^verbatim>\<open>id\<close> is its address. The caller
  stores it once its identifier is set.
\<close>

definition CreatetAttributeContainerFromRow ::
  "store \<Rightarrow> string \<Rightarrow> string list \<Rightarrow> pyvalue list \<Rightarrow> nat \<Rightarrow> error + AttributeContainer" where
  "CreatetAttributeContainerFromRow s container_type cols row first_column_index =
     (let schema = GetAttributeContainerSchema s container_type in
      if schema = [] then Inl IOError_unsupported_attribute_container_type
      else
        (case CreateAttributeContainer (containers_manager s) container_type
                (int (next_object s)) of
           Inl e \<Rightarrow> Inl e
         | Inr container \<Rightarrow>
             deserialize_columns (schema_helper s) schema
               (zip cols (drop first_column_index row)) container))"

subsection \<open>Writing\<close>

definition WriteNewAttributeContainer :: "store \<Rightarrow> nat \<Rightarrow> error option \<times> store" where
  "WriteNewAttributeContainer s ref =
     (let container_type = CONTAINER_TYPE (cls (objects s ref)) in
      case GetAttributeContainerNextSequenceNumber s container_type of
        (next_sequence_number, s1) \<Rightarrow>
          (case (if next_sequence_number = 1 then
                   (case HasTable s1 container_type of
                      Inl e \<Rightarrow> (Some e, s1)
                    | Inr True \<Rightarrow> (None, s1)
                    | Inr False \<Rightarrow> CreateAttributeContainerTable s1 container_type)
                 else (None, s1)) of
             (Some e, s2) \<Rightarrow> (Some e, s2)
           | (None, s2) \<Rightarrow>
               (let s3 = SetIdentifier s2 ref
                           \<lparr>name = Some container_type,
                            sequence_number = Some next_sequence_number\<rparr>;
                    schema = GetAttributeContainerSchema s3 container_type
                in if schema = [] then (Some IOError_unsupported_attribute_container_type, s3)
                   else
                     (case serialize_attributes (schema_helper s3) (sort_key fst schema)
                             (objects s3 ref) of
                        Inl e \<Rightarrow> (Some e, s3)
                      | Inr row_values \<Rightarrow>
                          (case CacheAttributeContainerForWrite s3 container_type
                                  (map fst (sort_key fst schema)) row_values of
                             (Some e, s4) \<Rightarrow> (Some e, s4)
                           | (None, s4) \<Rightarrow>
                               (None,
                                CacheAttributeContainerByIndex s4 ref
                                  (next_sequence_number - 1)))))))"

definition WriteExistingAttributeContainer :: "store \<Rightarrow> nat \<Rightarrow> error option \<times> store" where
  "WriteExistingAttributeContainer s ref =
     (let container_type = CONTAINER_TYPE (cls (objects s ref)) in
      case CommitWriteCache s container_type of
        (Some e, s1) \<Rightarrow> (Some e, s1)
      | (None, s1) \<Rightarrow>
          (let schema = GetAttributeContainerSchema s1 container_type in
           if schema = [] then (Some IOError_unsupported_attribute_container_type, s1)
           else
             (case serialize_attributes (schema_helper s1) (sort_key fst schema)
                     (objects s1 ref) of
                Inl e \<Rightarrow> (Some e, s1)
              | Inr vals \<Rightarrow>
                  (case sequence_number (container_identifier (objects s1 ref)) of
                     None \<Rightarrow> (Some TypeError, s1)
                   | Some row_number \<Rightarrow>
                       (case connection s1 of
                          None \<Rightarrow> (Some AttributeError, s1)
                        | Some db \<Rightarrow>
                            (case db_update_row db container_type
                                    (map fst (sort_key fst schema)) vals row_number of
                               Inl e \<Rightarrow> (Some (query_error e), s1)
                             | Inr db' \<Rightarrow> (None, s1\<lparr>connection := Some db'\<rparr>)))))))"

subsection \<open>Reading and counting\<close>

definition GetAttributeContainerByIndex ::
  "store \<Rightarrow> string \<Rightarrow> int \<Rightarrow> (error + nat option) \<times> store" where
  "GetAttributeContainerByIndex s container_type index =
     (case GetCachedAttributeContainer s container_type index of
        (Some ref, s1) \<Rightarrow> (Inr (Some ref), s1)
      | (None, s1) \<Rightarrow>
          (case CommitWriteCache s1 container_type of
             (Some e, s2) \<Rightarrow> (Inl e, s2)
           | (None, s2) \<Rightarrow>
               if sequence_numbers s2 container_type = 0 then (Inr None, s2)
               else
                 (let schema = GetAttributeContainerSchema s2 container_type in
                  if schema = [] then (Inl IOError_unsupported_attribute_container_type, s2)
                  else
                    (case connection s2 of
                       None \<Rightarrow> (Inl AttributeError, s2)
                     | Some db \<Rightarrow>
                         (case db_select_row db container_type (sort (map fst schema))
                                 (index + 1) of
                            Inl e \<Rightarrow> (Inl (query_error e), s2)
                          | Inr None \<Rightarrow> (Inr None, s2)
                          | Inr (Some row) \<Rightarrow>
                              (case CreatetAttributeContainerFromRow s2 container_type
                                      (sort (map fst schema)) row 0 of
                                 Inl e \<Rightarrow> (Inl e, s2)
                               | Inr container \<Rightarrow>
                                   (case allocate s2
                                           (container\<lparr>container_identifier :=
                                              \<lparr>name = Some container_type,
                                               sequence_number = Some (index + 1)\<rparr>\<rparr>) of
                                      (ref, s3) \<Rightarrow>
                                        (Inr (Some ref),
                                         CacheAttributeContainerByIndex s3 ref index))))))))"

definition GetAttributeContainerByIdentifier ::
  "store \<Rightarrow> string \<Rightarrow> AttributeContainerIdentifier \<Rightarrow> (error + nat option) \<times> store" where
  "GetAttributeContainerByIdentifier s container_type i =
     (case sequence_number i of
        None \<Rightarrow> (Inl TypeError, s)
      | Some k \<Rightarrow> GetAttributeContainerByIndex s container_type (k - 1))"

definition GetNumberOfAttributeContainers :: "store \<Rightarrow> string \<Rightarrow> (error + int) \<times> store" where
  "GetNumberOfAttributeContainers s container_type =
     (case CommitWriteCache s container_type of
        (Some e, s1) \<Rightarrow> (Inl e, s1)
      | (None, s1) \<Rightarrow>
          (case HasTable s1 container_type of
             Inl e \<Rightarrow> (Inl e, s1)
           | Inr False \<Rightarrow> (Inr 0, s1)
           | Inr True \<Rightarrow>
               (case connection s1 of
                  None \<Rightarrow> (Inl AttributeError, s1)
                | Some db \<Rightarrow>
                    (case db_max_rowid db container_type of
                       Inl e \<Rightarrow> (Inl (query_error e), s1)
                     | Inr None \<Rightarrow> (Inr 0, s1)
                     | Inr (Some k) \<Rightarrow> (Inr k, s1)))))"

definition HasAttributeContainers :: "store \<Rightarrow> string \<Rightarrow> (error + bool) \<times> store" where
  "HasAttributeContainers s container_type =
     (case GetNumberOfAttributeContainers s container_type of
        (Inl e, s1) \<Rightarrow> (Inl e, s1)
      | (Inr k, s1) \<Rightarrow> (Inr (k > 0), s1))"

subsection \<open>Storage metadata\<close>

text \<open>
  \<^verbatim>\<open>_ReadMetadata\<close> builds a dict from the rows of the metadata table: of two rows with
  one key the later one stays.
\<close>

definition metadata_get :: "(string \<times> pyvalue) list \<Rightarrow> string \<Rightarrow> pyvalue" where
  "metadata_get metadata_rows k =
     (case map_of (rev metadata_rows) k of None \<Rightarrow> PyNone | Some v \<Rightarrow> v)"

definition ReadMetadata :: "store \<Rightarrow> error + (string \<times> pyvalue) list" where
  "ReadMetadata s =
     (case connection s of
        None \<Rightarrow> Inl AttributeError
      | Some db \<Rightarrow>
          (case metadata db of
             None \<Rightarrow> Inl IOError_unable_to_query
           | Some metadata_rows \<Rightarrow> Inr metadata_rows))"

text \<open>The checked format version, as the integer the function stores back in the dict.\<close>

definition CheckStorageMetadata ::
  "format_versions \<Rightarrow> (string \<times> pyvalue) list \<Rightarrow> bool \<Rightarrow> error + int" where
  "CheckStorageMetadata vs metadata_values check_readable_only =
     (if \<not> py_bool (metadata_get metadata_values ''format_version'')
      then Inl IOError_missing_format_version
      else
        (case py_int_base10 (metadata_get metadata_values ''format_version'') of
           Inl e \<Rightarrow> Inl IOError_invalid_format_version
         | Inr stored_version \<Rightarrow>
             if \<not> check_readable_only \<and> stored_version < APPEND_COMPATIBLE_FORMAT_VERSION vs
             then Inl IOError_too_old_to_write
             else if stored_version < READ_COMPATIBLE_FORMAT_VERSION vs
             then Inl IOError_too_old_to_read
             else if stored_version > FORMAT_VERSION vs then Inl IOError_too_new
             else if metadata_get metadata_values ''serialization_format'' \<noteq> PyStr ''json''
             then Inl IOError_unsupported_serialization_format
             else Inr stored_version))"

definition ReadAndCheckStorageMetadata :: "store \<Rightarrow> bool \<Rightarrow> error option \<times> store" where
  "ReadAndCheckStorageMetadata s check_readable_only =
     (case ReadMetadata s of
        Inl e \<Rightarrow> (Some e, s)
      | Inr metadata_values \<Rightarrow>
          (case CheckStorageMetadata (versions s) metadata_values check_readable_only of
             Inl e \<Rightarrow> (Some e, s)
           | Inr stored_version \<Rightarrow>
               (None, s\<lparr>format_version := stored_version, serialization_format := ''json''\<rparr>)))"

definition UpdateStorageMetadataFormatVersion :: "store \<Rightarrow> error option \<times> store" where
  "UpdateStorageMetadataFormatVersion s =
     (if format_version s \<ge> UPGRADE_COMPATIBLE_FORMAT_VERSION (versions s) then
        (case connection s of
           None \<Rightarrow> (Some AttributeError, s)
         | Some db \<Rightarrow>
             (case metadata db of
                None \<Rightarrow> (Some IOError_unable_to_query, s)
              | Some metadata_rows \<Rightarrow>
                  if read_only_mode db then (Some IOError_unable_to_query, s)
                  else
                    (None,
                     s\<lparr>connection := Some (db
                         \<lparr>metadata := Some (map (\<lambda>(k, v).
                              if k = ''format_version''
                              then (k, PyStr (str_int (FORMAT_VERSION (versions s))))
                              else (k, v)) metadata_rows),
                          statements := statements db @ [UpdateMetadata]\<rparr>)\<rparr>)))
      else (None, s))"

definition WriteMetadata :: "store \<Rightarrow> error option \<times> store" where
  "WriteMetadata s =
     (case connection s of
        None \<Rightarrow> (Some AttributeError, s)
      | Some db \<Rightarrow>
          if metadata db \<noteq> None \<or> read_only_mode db then (Some IOError_unable_to_query, s)
          else
            (None,
             s\<lparr>connection := Some (db
                 \<lparr>metadata := Some
                    [(''format_version'', PyStr (str_int (FORMAT_VERSION (versions s)))),
                     (''serialization_format'', PyStr (serialization_format s))],
                  statements := statements db @
                    [CreateMetadataTable, InsertMetadata ''format_version'',
                     InsertMetadata ''serialization_format'']\<rparr>)\<rparr>))"

subsection \<open>Opening, closing and probing\<close>

text \<open>
  What a path holds: nothing that is a file, a file that is not an SQLite database, or a
  database. \<^verbatim>\<open>sqlite3.connect\<close> creates an empty database where no file is, unless the
  URI says \<^verbatim>\<open>mode=ro\<close>; on a file that is no database the first statement raises
  \<^verbatim>\<open>sqlite3.DatabaseError\<close>.
\<close>

datatype path_content = NoFile | NotADatabaseFile | DatabaseFile database

definition sqlite3_connect :: "path_content \<Rightarrow> bool \<Rightarrow> error + database" where
  "sqlite3_connect content ro =
     (case content of
        NoFile \<Rightarrow> if ro then Inl OperationalError else Inr empty_database
      | NotADatabaseFile \<Rightarrow> Inl DatabaseError
      | DatabaseFile db \<Rightarrow> Inr (db\<lparr>read_only_mode := ro\<rparr>))"

fun seed_sequence_numbers :: "store \<Rightarrow> string list \<Rightarrow> error option \<times> store" where
  "seed_sequence_numbers s [] = (None, s)"
| "seed_sequence_numbers s (container_type # others) =
     (case GetNumberOfAttributeContainers s container_type of
        (Inl e, s1) \<Rightarrow> (Some e, s1)
      | (Inr next_sequence_number, s1) \<Rightarrow>
          seed_sequence_numbers
            (SetAttributeContainerNextSequenceNumber s1 container_type next_sequence_number)
            others)"

definition Open :: "store \<Rightarrow> path_content \<Rightarrow> string \<Rightarrow> bool \<Rightarrow> error option \<times> store" where
  "Open s content path ro =
     (if is_open s then (Some IOError_already_opened, s)
      else if path = [] then (Some ValueError_missing_path, s)
      else
        (case sqlite3_connect content ro of
           Inl e \<Rightarrow> (Some e, s)
         | Inr db \<Rightarrow>
             (let s1 = s\<lparr>connection := Some db, is_open := True, read_only := ro\<rparr> in
              case (if ro then ReadAndCheckStorageMetadata s1 True
                    else
                      (case (if \<not> db_has_table db ''metadata'' then WriteMetadata s1
                             else
                               (case ReadAndCheckStorageMetadata s1 False of
                                  (Some e, s2) \<Rightarrow> (Some e, s2)
                                | (None, s2) \<Rightarrow> UpdateStorageMetadataFormatVersion s2)) of
                         (Some e, s3) \<Rightarrow> (Some e, s3)
                       | (None, s3) \<Rightarrow>
                           (None, s3\<lparr>connection := map_option db_commit (connection s3)\<rparr>))) of
                (Some e, s4) \<Rightarrow> (Some e, s4)
              | (None, s4) \<Rightarrow>
                  seed_sequence_numbers s4 (GetContainerTypes (containers_manager s4)))))"

definition Close :: "store \<Rightarrow> error option \<times> store" where
  "Close s =
     (if \<not> is_open s then (Some IOError_already_closed, s)
      else
        (case connection s of
           None \<Rightarrow> (None, s\<lparr>is_open := False\<rparr>)
         | Some db \<Rightarrow>
             (case Flush s of
                (Some e, s1) \<Rightarrow> (Some e, s1)
              | (None, s1) \<Rightarrow> (None, s1\<lparr>connection := None, is_open := False\<rparr>))))"

text \<open>
  \<^verbatim>\<open>CheckSupportedFormat\<close>. The local \<^verbatim>\<open>result\<close> is assigned in two places only: to True
  after \<^verbatim>\<open>int\<close> has parsed the format version, and to False in the outer \<^verbatim>\<open>except\<close>.
  The inner \<^verbatim>\<open>except\<close> passes, and a missing or empty format version skips the inner
  \<^verbatim>\<open>try\<close>; \<^verbatim>\<open>return result\<close> then reads a local that was never assigned.
\<close>

definition CheckSupportedFormat :: "path_content \<Rightarrow> error + bool" where
  "CheckSupportedFormat content =
     (case content of
        NoFile \<Rightarrow> Inr False
      | NotADatabaseFile \<Rightarrow> Inr False
      | DatabaseFile db \<Rightarrow>
          (case metadata db of
             None \<Rightarrow> Inr False
           | Some metadata_rows \<Rightarrow>
               if py_bool (metadata_get metadata_rows ''format_version'') then
                 (case py_int_base10 (metadata_get metadata_rows ''format_version'') of
                    Inl e \<Rightarrow> Inl UnboundLocalError
                  | Inr stored_version \<Rightarrow> Inr True)
               else Inl UnboundLocalError))"

subsection \<open>The public write operations\<close>

definition RaiseIfNotReadable :: "store \<Rightarrow> error option" where
  "RaiseIfNotReadable s = (if \<not> is_open s then Some IOError_closed_store else None)"

definition RaiseIfNotWritable :: "store \<Rightarrow> error option" where
  "RaiseIfNotWritable s =
     (if \<not> is_open s then Some IOError_closed_store
      else if read_only s then Some IOError_read_only_store
      else None)"

text \<open>
  Modelled from the spec: \<^verbatim>\<open>AddAttributeContainer\<close> and \<^verbatim>\<open>UpdateAttributeContainer\<close> are
  methods of the base class, which is not among the sources. They fail when the store
  is not writable and otherwise write the container as a new one, or as an existing one.
\<close>

definition AddAttributeContainer :: "store \<Rightarrow> nat \<Rightarrow> error option \<times> store" where
  "AddAttributeContainer s ref =
     (case RaiseIfNotWritable s of
        Some e \<Rightarrow> (Some e, s)
      | None \<Rightarrow> WriteNewAttributeContainer s ref)"

definition UpdateAttributeContainer :: "store \<Rightarrow> nat \<Rightarrow> error option \<times> store" where
  "UpdateAttributeContainer s ref =
     (case RaiseIfNotWritable s of
        Some e \<Rightarrow> (Some e, s)
      | None \<Rightarrow> WriteExistingAttributeContainer s ref)"

subsection \<open>Sequences of calls on an open store\<close>

text \<open>
  What the owner of a store can do with it between \<^verbatim>\<open>Open\<close> and \<^verbatim>\<open>Close\<close>: write a
  container as new or as existing, read by index or by identifier, count, test for
  containers, flush; and, on its own objects, create a container of a class, set an
  attribute and set an identifier. There is no call that deletes. A call that raises
  leaves the store as the exception found it.
\<close>

datatype call =
    WriteNew nat
  | WriteExisting nat
  | ReadByIndex string int
  | ReadByIdentifier string AttributeContainerIdentifier
  | CountContainers string
  | HasContainers string
  | FlushAll
  | CommitType string
  | NewObject container_class
  | SetAttribute nat string pyvalue
  | SetObjectIdentifier nat AttributeContainerIdentifier

fun step :: "store \<Rightarrow> call \<Rightarrow> store" where
  "step s (WriteNew ref) = snd (WriteNewAttributeContainer s ref)"
| "step s (WriteExisting ref) = snd (WriteExistingAttributeContainer s ref)"
| "step s (ReadByIndex container_type index) =
     snd (GetAttributeContainerByIndex s container_type index)"
| "step s (ReadByIdentifier container_type i) =
     snd (GetAttributeContainerByIdentifier s container_type i)"
| "step s (CountContainers container_type) =
     snd (GetNumberOfAttributeContainers s container_type)"
| "step s (HasContainers container_type) = snd (HasAttributeContainers s container_type)"
| "step s FlushAll = snd (Flush s)"
| "step s (CommitType container_type) = snd (CommitWriteCache s container_type)"
| "step s (NewObject c) = snd (allocate s (new_container c (int (next_object s))))"
| "step s (SetAttribute ref attribute_name v) = setattr s ref attribute_name v"
| "step s (SetObjectIdentifier ref i) = SetIdentifier s ref i"

definition run :: "store \<Rightarrow> call list \<Rightarrow> store" where
  "run s calls = foldl step s calls"

subsection \<open>Counting stored rows\<close>

text \<open>
  The number the two queries of \<^verbatim>\<open>GetNumberOfAttributeContainers\<close> stand for: 0 where
  \<^verbatim>\<open>_HAS_TABLE_QUERY\<close> finds no row or there is no connection, and what
  \<^verbatim>\<open>SELECT MAX(_ROWID_)\<close> gives otherwise (0 where it gives nothing); and the order in
  which one database holds at least the rows of another, name by name.
\<close>

definition db_rows :: "database \<Rightarrow> string \<Rightarrow> int" where
  "db_rows db table_name =
     (if db_has_table db table_name
      then (case db_max_rowid db table_name of Inr (Some k) \<Rightarrow> k | _ \<Rightarrow> 0)
      else 0)"

definition connection_rows :: "database option \<Rightarrow> string \<Rightarrow> int" where
  "connection_rows c container_type =
     (case c of None \<Rightarrow> 0 | Some db \<Rightarrow> db_rows db container_type)"

definition no_loss :: "database option \<Rightarrow> database option \<Rightarrow> bool" where
  "no_loss c c' = (\<forall>x. connection_rows c x \<le> connection_rows c' x)"

subsection \<open>A small store to run\<close>

text \<open>
  A class \<^verbatim>\<open>event\<close> with an integer attribute \<^verbatim>\<open>a\<close> and a string attribute \<^verbatim>\<open>b\<close>, and a
  store opened for writing on a path where no file is.
\<close>

definition plain_class :: container_class where
  "plain_class = \<lparr>CONTAINER_TYPE = ''event'', SCHEMA = Some [(''b'', ''str''), (''a'', ''int'')]\<rparr>"

definition opened_store :: store where
  "opened_store =
     snd (Open (init_store [(''event'', plain_class)] basic_schema_helper class_format_versions)
            NoFile ''store.sqlite'' False)"


text \<open>
  A container is written as new (attribute \<^verbatim>\<open>a\<close> is 1), which puts it in the read cache
  under index 0. A second object of the class is given the identifier \<^verbatim>\<open>event.1\<close> and
  the value 2 for \<^verbatim>\<open>a\<close>, as an object read with \<^verbatim>\<open>GetAttributeContainers\<close> and changed by
  the caller would have, and is written as existing.
\<close>

definition update_through_copy :: "call list" where
  "update_through_copy =
     [NewObject plain_class, SetAttribute 0 ''a'' (PyInt 1), WriteNew 0,
      NewObject plain_class, SetAttribute 1 ''a'' (PyInt 2),
      SetObjectIdentifier 1 \<lparr>name = Some ''event'', sequence_number = Some 1\<rparr>,
      WriteExisting 1]"

text \<open>The same update made through the object that was written, which the cache holds.\<close>

definition update_in_place :: "call list" where
  "update_in_place =
     [NewObject plain_class, SetAttribute 0 ''a'' (PyInt 1), WriteNew 0,
      SetAttribute 0 ''a'' (PyInt 2), WriteExisting 0]"

text \<open>What a read by index gives: the exception or the reference, and the object's value of an attribute.\<close>

definition read_attribute :: "store \<Rightarrow> string \<Rightarrow> int \<Rightarrow> string \<Rightarrow> (error + nat option) \<times> pyvalue" where
  "read_attribute s container_type index attribute_name =
     (case GetAttributeContainerByIndex s container_type index of
        (Inr (Some ref), s') \<Rightarrow> (Inr (Some ref), attribute_values (objects s' ref) attribute_name)
      | (r, s') \<Rightarrow> (r, PyNone))"


text \<open>Format constants whose read floor lies below the append floor, and a stored version between.\<close>

definition spread_versions :: format_versions where
  "spread_versions =
     \<lparr>FORMAT_VERSION = 30, APPEND_COMPATIBLE_FORMAT_VERSION = 20,
      UPGRADE_COMPATIBLE_FORMAT_VERSION = 20, READ_COMPATIBLE_FORMAT_VERSION = 10\<rparr>"

definition stored_metadata :: "string \<Rightarrow> (string \<times> pyvalue) list" where
  "stored_metadata version_text =
     [(''format_version'', PyStr version_text), (''serialization_format'', PyStr ''json'')]"

definition stored_database :: "string \<Rightarrow> database" where
  "stored_database version_text = empty_database\<lparr>metadata := Some (stored_metadata version_text)\<rparr>"

text \<open>Every key of the class-level dict is the lower-case container type of its class.\<close>

definition keys_lower :: "registry \<Rightarrow> bool" where
  "keys_lower classes = list_all (\<lambda>(k, c). k = py_lower (CONTAINER_TYPE c)) classes"

section \<open>Built-ins: round trip of decimal text\<close>

lemma digit_char_is_digit: "d < 10 \<Longrightarrow> is_digit (digit_char d)"
  by (simp add: is_digit_def digit_char_def)

lemma digit_value_digit_char: "d < 10 \<Longrightarrow> digit_value (digit_char d) = d"
  by (simp add: digit_value_def digit_char_def)

lemma is_digit_not_space: "is_digit c \<Longrightarrow> \<not> is_space c"
  by (auto simp: is_digit_def is_space_def)

lemma is_digit_not_dot: "is_digit c \<Longrightarrow> c \<noteq> CHR ''.''"
  by (auto simp: is_digit_def)

lemma str_nat_digits: "list_all is_digit (str_nat n)"
proof (induction n rule: str_nat.induct)
  case (1 n)
  show ?case
  proof (cases "n < 10")
    case True
    then show ?thesis by (simp add: str_nat.simps [of n] digit_char_is_digit)
  next
    case False
    with 1 show ?thesis by (simp add: str_nat.simps [of n] digit_char_is_digit)
  qed
qed

lemma str_nat_nonempty: "str_nat n \<noteq> []"
  by (subst str_nat.simps) simp

lemma after_digit_all_digits:
  "list_all is_digit ds \<Longrightarrow>
   after_digit acc ds = Some (foldl (\<lambda>a c. 10 * a + digit_value c) acc ds)"
  by (induction acc ds rule: after_digit.induct) simp_all

lemma py_digits_all_digits:
  assumes "list_all is_digit ds" and "ds \<noteq> []"
  shows "py_digits ds = Some (foldl (\<lambda>a c. 10 * a + digit_value c) 0 ds)"
proof -
  from assms obtain c cs where ds: "ds = c # cs" by (cases ds) auto
  with assms show ?thesis
    by (simp add: py_digits_def after_digit_all_digits)
qed

lemma foldl_str_nat: "foldl (\<lambda>a c. 10 * a + digit_value c) 0 (str_nat n) = n"
proof (induction n rule: str_nat.induct)
  case (1 n)
  show ?case
  proof (cases "n < 10")
    case True
    then show ?thesis by (simp add: str_nat.simps [of n] digit_value_digit_char)
  next
    case False
    with 1 show ?thesis by (simp add: str_nat.simps [of n] digit_value_digit_char)
  qed
qed

lemma py_digits_str_nat: "py_digits (str_nat n) = Some n"
  by (simp add: py_digits_all_digits str_nat_digits str_nat_nonempty foldl_str_nat)

lemma py_strip_id:
  assumes "s \<noteq> []" and "\<not> is_space (hd s)" and "\<not> is_space (last s)"
  shows "py_strip s = s"
proof -
  from assms have a: "dropWhile is_space s = s" by (cases s) auto
  from assms have "rev s \<noteq> []" and "\<not> is_space (hd (rev s))" by (auto simp: hd_rev)
  then have "dropWhile is_space (rev s) = rev s" by (cases "rev s") auto
  with a show ?thesis by (simp add: py_strip_def)
qed

lemma str_nat_hd_digit: "is_digit (hd (str_nat n))"
  using str_nat_digits [of n] str_nat_nonempty [of n]
  by (cases "str_nat n") auto

lemma str_nat_last_digit: "is_digit (last (str_nat n))"
  using str_nat_digits [of n] str_nat_nonempty [of n]
  by (auto simp: list_all_iff)

lemma str_nat_hd_not_sign: "hd (str_nat n) \<noteq> CHR ''-'' \<and> hd (str_nat n) \<noteq> CHR ''+''"
  using str_nat_hd_digit [of n] by (auto simp: is_digit_def)

lemma py_int_str_int: "py_int (str_int n) = Inr n"
proof (cases "n < 0")
  case True
  have "py_strip (CHR ''-'' # str_nat (nat (- n))) = CHR ''-'' # str_nat (nat (- n))"
    using str_nat_last_digit [of "nat (- n)"] str_nat_nonempty [of "nat (- n)"]
    by (intro py_strip_id) (auto simp: is_space_def dest: is_digit_not_space)
  with True show ?thesis
    by (simp add: py_int_def str_int_def py_digits_str_nat)
next
  case False
  have strip: "py_strip (str_nat (nat n)) = str_nat (nat n)"
    using str_nat_last_digit [of "nat n"] str_nat_hd_digit [of "nat n"] str_nat_nonempty [of "nat n"]
    by (intro py_strip_id) (auto dest: is_digit_not_space)
  obtain c cs where cs: "str_nat (nat n) = c # cs"
    using str_nat_nonempty [of "nat n"] by (cases "str_nat (nat n)") auto
  with str_nat_hd_not_sign [of "nat n"] have "c \<noteq> CHR ''-''" "c \<noteq> CHR ''+''" by auto
  moreover have "py_digits (c # cs) = Some (nat n)"
    using py_digits_str_nat [of "nat n"] cs by simp
  ultimately show ?thesis using False strip cs
    by (simp add: py_int_def str_int_def)
qed

lemma str_int_no_dot: "CHR ''.'' \<notin> set (str_int n)"
  using str_nat_digits [of "nat n"] str_nat_digits [of "nat (- n)"]
  by (auto simp: str_int_def list_all_iff dest: is_digit_not_dot)

lemma py_split_no_sep: "sep \<notin> set s \<Longrightarrow> py_split sep s = [s]"
  by (induction s) auto

lemma py_split_first: "sep \<notin> set s \<Longrightarrow> py_split sep (s @ sep # t) = s # py_split sep t"
  by (induction s) auto

section \<open>Identifier round trip\<close>

text \<open>
  C5, as amended. For every type name that holds no \<^verbatim>\<open>.\<close> and every integer sequence
  number, \<^verbatim>\<open>CopyToString\<close> gives the text \<^verbatim>\<open>type.sequence\<close> and \<^verbatim>\<open>CopyFromString\<close> of that
  text, on any identifier object, raises nothing and leaves exactly the original name
  and sequence number; \<^verbatim>\<open>CopyToString\<close> gives nothing when the name or the sequence
  number is unset.
\<close>

theorem identifier_round_trip:
  "(CHR ''.'' \<notin> set n \<longrightarrow>
      CopyToString \<lparr>name = Some n, sequence_number = Some k\<rparr> = Some (n @ ''.'' @ str_int k) \<and>
      CopyFromString self (n @ ''.'' @ str_int k) =
        (None, \<lparr>name = Some n, sequence_number = Some k\<rparr>)) \<and>
   CopyToString \<lparr>name = None, sequence_number = sq\<rparr> = None \<and>
   CopyToString \<lparr>name = nm, sequence_number = None\<rparr> = None"
proof -
  have "CopyToString \<lparr>name = nm, sequence_number = None\<rparr> = None"
    by (cases nm) (simp_all add: CopyToString_def)
  moreover have "CopyToString \<lparr>name = None, sequence_number = sq\<rparr> = None"
    by (simp add: CopyToString_def)
  moreover have "CopyFromString self (n @ ''.'' @ str_int k) =
        (None, \<lparr>name = Some n, sequence_number = Some k\<rparr>)" if "CHR ''.'' \<notin> set n"
    using that
    by (simp add: CopyFromString_def py_split_first py_split_no_sep str_int_no_dot py_int_str_int)
  ultimately show ?thesis by (simp add: CopyToString_def)
qed

theorem identifier_round_trip_witness:
  "CHR ''.'' \<notin> set ''event'' \<and>
   CopyToString \<lparr>name = Some ''event'', sequence_number = Some 12\<rparr> = Some ''event.12'' \<and>
   CopyFromString \<lparr>name = None, sequence_number = None\<rparr> ''event.12'' =
     (None, \<lparr>name = Some ''event'', sequence_number = Some 12\<rparr>)"
proof -
  have s: "str_int 12 = ''12''" by code_simp
  show ?thesis
    using identifier_round_trip [of "''event''" 12 "\<lparr>name = None, sequence_number = None\<rparr>"]
    by (simp add: s)
qed

text \<open>
  A type name that itself holds the separator does not survive: \<^verbatim>\<open>a.b\<close> with sequence
  number 1 is written \<^verbatim>\<open>a.b.1\<close>, which splits in three parts, and the tuple assignment
  raises ValueError before anything is stored.
\<close>

theorem identifier_round_trip_counterexample:
  "CopyToString \<lparr>name = Some ''a.b'', sequence_number = Some 1\<rparr> = Some ''a.b.1'' \<and>
   CopyFromString \<lparr>name = None, sequence_number = None\<rparr> ''a.b.1'' =
     (Some ValueError_unpack, \<lparr>name = None, sequence_number = None\<rparr>)"
proof -
  have s: "str_int 1 = ''1''" by code_simp
  show ?thesis by (simp add: CopyToString_def CopyFromString_def s)
qed

section \<open>The filter translator\<close>

lemma collect_Inr: "(\<exists>xs. collect rs = Inr xs) = list_all (\<lambda>r. \<exists>x. r = Inr x) rs"
  by (induction rs rule: collect.induct) (auto split: sum.splits)

lemma collect_Inl: "collect rs = Inl e \<Longrightarrow> Inl e \<in> set rs"
  by (induction rs rule: collect.induct) (auto split: sum.splits)

lemma translate_error: "PythonAST2SQL e = Inl err \<Longrightarrow> err = TypeError"
  apply (induction e arbitrary: err rule: PythonAST2SQL.induct)
  apply (auto split: sum.splits list.splits cmpop.splits option.splits dest!: collect_Inl)
  done

lemma translate_ok: "(\<exists>s. PythonAST2SQL e = Inr s) = translatable e"
proof (induction e rule: PythonAST2SQL.induct)
  case (1 op vals)
  have "(\<exists>s. PythonAST2SQL (BoolOp op vals) = Inr s) = (\<exists>xs. collect (map PythonAST2SQL vals) = Inr xs)"
    by (auto split: sum.splits)
  also have "\<dots> = list_all (\<lambda>v. \<exists>x. PythonAST2SQL v = Inr x) vals"
    by (simp add: collect_Inr list_all_iff)
  also have "\<dots> = list_all translatable vals"
    using 1 by (auto simp: list_all_iff)
  finally show ?case by simp
next
  case (2 left ops comparators)
  show ?case
  proof (cases "(ops = [Eq] \<or> ops = [NotEq]) \<and> (\<exists>c. comparators = [c])")
    case True
    then obtain c where c: "comparators = [c]" by blast
    from True c 2(1) have l: "(\<exists>s. PythonAST2SQL left = Inr s) = translatable left"
      by auto
    have r: "(\<exists>s. PythonAST2SQL c = Inr s) = translatable c" if "PythonAST2SQL left = Inr b" for b
    proof -
      from True consider (eq) "ops = [Eq]" | (ne) "ops = [NotEq]" by blast
      then show ?thesis
      proof cases
        case eq
        with c that show ?thesis using 2(2) [of Eq "[]" "'' = ''" c "[]" b] by simp
      next
        case ne
        with c that show ?thesis using 2(2) [of NotEq "[]" "'' <> ''" c "[]" b] by simp
      qed
    qed
    from True c l r show ?thesis
      by (auto split: sum.splits)
  next
    case False
    then have "PythonAST2SQL (Compare left ops comparators) = Inl TypeError"
      by (auto split: list.splits cmpop.splits option.splits)
    moreover from False have "\<not> translatable (Compare left ops comparators)"
      by (auto simp: length_Suc_conv)
    ultimately show ?thesis by simp
  qed
qed simp_all

lemma translate_fails: "\<not> translatable e \<Longrightarrow> PythonAST2SQL e = Inl TypeError"
  using translate_ok [of e] translate_error [of e]
  by (cases "PythonAST2SQL e") auto

text \<open>
  The translator on every expression. \<^verbatim>\<open>a == 1 and b == "x"\<close> gives \<^verbatim>\<open>a = 1 AND b = "x"\<close>:
  \<^verbatim>\<open>==\<close> becomes \<^verbatim>\<open>=\<close>, \<^verbatim>\<open>!=\<close> becomes \<^verbatim>\<open><>\<close>, \<^verbatim>\<open>and\<close> becomes \<^verbatim>\<open>AND\<close>, \<^verbatim>\<open>or\<close> becomes
  \<^verbatim>\<open>OR\<close>, a string literal is put between double quotes and a name is emitted as it
  is. The function returns text exactly for the expressions its branches accept, and
  raises TypeError for every other, subtraction, membership, negation and calls among
  them, also when only a part of the expression is of another form. Its \<^verbatim>\<open>Constant\<close>
  branch asks only whether the value is a string: a constant of any other type is
  emitted as the text \<^verbatim>\<open>str()\<close> gives.
\<close>

lemma translator_on_every_expression:
  "PythonAST2SQL example_filter = Inr (''a = 1 AND b = '' @ [CHR 0x22] @ ''x'' @ [CHR 0x22]) \<and>
   (\<exists>sql. PythonAST2SQL e = Inr sql) = translatable e \<and>
   (\<not> translatable e \<longrightarrow> PythonAST2SQL e = Inl TypeError) \<and>
   PythonAST2SQL (BinOp l Sub r) = Inl TypeError \<and>
   PythonAST2SQL (Compare l [In] [r]) = Inl TypeError \<and>
   PythonAST2SQL (UnaryOp Not_op l) = Inl TypeError \<and>
   PythonAST2SQL (Call f args) = Inl TypeError \<and>
   (PythonAST2SQL l = Inr sl \<and> PythonAST2SQL r = Inr sr \<longrightarrow>
      PythonAST2SQL (Compare l [Eq] [r]) = Inr (sl @ '' = '' @ sr) \<and>
      PythonAST2SQL (Compare l [NotEq] [r]) = Inr (sl @ '' <> '' @ sr) \<and>
      PythonAST2SQL (BoolOp And [l, r]) = Inr (sl @ '' AND '' @ sr) \<and>
      PythonAST2SQL (BoolOp Or [l, r]) = Inr (sl @ '' OR '' @ sr)) \<and>
   PythonAST2SQL (Constant (ConstStr s)) = Inr ([CHR 0x22] @ s @ [CHR 0x22]) \<and>
   ((\<forall>s. v \<noteq> ConstStr s) \<longrightarrow> PythonAST2SQL (Constant v) = Inr (str_constant v)) \<and>
   PythonAST2SQL (Name a) = Inr a"
proof -
  have one: "str_int 1 = ''1''" by code_simp
  have ex: "PythonAST2SQL example_filter =
      Inr (''a = 1 AND b = '' @ [CHR 0x22] @ ''x'' @ [CHR 0x22])"
    by (simp add: example_filter_def one)
  have const: "PythonAST2SQL (Constant v) = Inr (str_constant v)" if "\<forall>s. v \<noteq> ConstStr s"
    using that by (cases v) simp_all
  from ex const translate_ok [of e] translate_fails [of e] show ?thesis
    by simp
qed

lemma translator_rejects_subtraction:
  "\<not> translatable (BoolOp And [Name ''a'', BinOp (Name ''b'') Sub (Name ''c'')]) \<and>
   PythonAST2SQL (BoolOp And [Name ''a'', BinOp (Name ''b'') Sub (Name ''c'')]) = Inl TypeError \<and>
   PythonAST2SQL (Compare (Name ''a'') [NotEq] [Name ''b'']) = Inr ''a <> b''"
  by simp

text \<open>
  C4 fails on the code. A comparison with the literal None, or with the literal
  \<^verbatim>\<open>...\<close>, is none of the shapes listed as supported: the literal is neither a string
  nor a number. The translator does not raise for it. The \<^verbatim>\<open>Constant\<close> branch returns
  \<^verbatim>\<open>str(None)\<close>, and \<^verbatim>\<open>a = None\<close> is handed on as the SQL of the filter, where it is no
  comparison with a value: SQLite reads \<^verbatim>\<open>None\<close> as the name of a column. The branches
  for \<^verbatim>\<open>Num\<close> and \<^verbatim>\<open>Str\<close> of the same function accept numbers and strings only.
\<close>

theorem none_literal_is_translated:
  "\<not> listed_shape (Compare (Name ''a'') [Eq] [Constant ConstNone]) \<and>
   PythonAST2SQL (Compare (Name ''a'') [Eq] [Constant ConstNone]) = Inr ''a = None'' \<and>
   \<not> listed_shape (Compare (Name ''a'') [Eq] [Constant ConstEllipsis]) \<and>
   PythonAST2SQL (Compare (Name ''a'') [Eq] [Constant ConstEllipsis]) = Inr ''a = Ellipsis''"
  by simp

section \<open>The registry of container classes\<close>

lemma lower_char_not_upper: "\<not> is_upper (lower_char c)"
  by (auto simp: is_upper_def lower_char_def)

lemma py_lower_not_upper: "c \<in> set (py_lower s) \<Longrightarrow> \<not> is_upper c"
  by (auto simp: py_lower_def lower_char_not_upper)

lemma keys_lower_update:
  "keys_lower classes \<Longrightarrow> keys_lower (AList.update (py_lower (CONTAINER_TYPE c)) c classes)"
  by (induction classes) (auto simp: keys_lower_def)

lemma keys_lower_delete: "keys_lower classes \<Longrightarrow> keys_lower (AList.delete k classes)"
  by (induction classes) (auto simp: keys_lower_def)

lemma keys_lower_step: "keys_lower classes \<Longrightarrow> keys_lower (manager_step classes call)"
  by (cases call)
     (auto simp: RegisterAttributeContainer_def DeregisterAttributeContainer_def Let_def
        keys_lower_update keys_lower_delete split: sum.splits if_splits)

lemma keys_lower_foldl: "keys_lower classes \<Longrightarrow> keys_lower (foldl manager_step classes calls)"
  by (induction calls arbitrary: classes) (auto simp: keys_lower_step)

lemma keys_lower_run: "keys_lower (manager_run calls)"
  unfolding manager_run_def by (rule keys_lower_foldl) (simp add: keys_lower_def)

lemma keys_lower_lookup:
  "keys_lower classes \<Longrightarrow> map_of classes k = Some c \<Longrightarrow> k = py_lower (CONTAINER_TYPE c)"
  by (induction classes) (auto simp: keys_lower_def split: if_splits)

lemma upper_not_key:
  assumes "keys_lower classes" and "c \<in> set k" and "is_upper c"
  shows "map_of classes k = None"
proof (cases "map_of classes k")
  case (Some cl)
  with assms(1) have "k = py_lower (CONTAINER_TYPE cl)" by (rule keys_lower_lookup)
  with assms(2,3) py_lower_not_upper show ?thesis by blast
qed simp


text \<open>
  C9. In a registry built by registrations and deregistrations, a class is found under
  the lower-case form of its \<^verbatim>\<open>CONTAINER_TYPE\<close> and under no other key, while
  \<^verbatim>\<open>GetSchema\<close> and \<^verbatim>\<open>CreateAttributeContainer\<close> look the given name up as it is. So for a
  registered class whose \<^verbatim>\<open>CONTAINER_TYPE\<close> holds an upper-case letter, both calls raise
  the unsupported-container-type ValueError when given that \<^verbatim>\<open>CONTAINER_TYPE\<close>, and
  succeed when given its lower-case form.
\<close>

theorem registry_case_asymmetry:
  assumes "map_of (manager_run calls) k = Some c"
    and "ch \<in> set (CONTAINER_TYPE c)"
    and "is_upper ch"
  shows "k = py_lower (CONTAINER_TYPE c) \<and>
     GetSchema (manager_run calls) (CONTAINER_TYPE c) = Inl ValueError_unsupported_container_type \<and>
     CreateAttributeContainer (manager_run calls) (CONTAINER_TYPE c) object_id =
       Inl ValueError_unsupported_container_type \<and>
     GetSchema (manager_run calls) (py_lower (CONTAINER_TYPE c)) =
       Inr (case SCHEMA c of None \<Rightarrow> [] | Some schema \<Rightarrow> schema) \<and>
     CreateAttributeContainer (manager_run calls) (py_lower (CONTAINER_TYPE c)) object_id =
       Inr (new_container c object_id)"
proof -
  have inv: "keys_lower (manager_run calls)" by (rule keys_lower_run)
  from inv assms(1) have k: "k = py_lower (CONTAINER_TYPE c)" by (rule keys_lower_lookup)
  from inv assms(2,3) have "map_of (manager_run calls) (CONTAINER_TYPE c) = None"
    by (rule upper_not_key)
  with k assms(1) show ?thesis
    by (simp add: GetSchema_def CreateAttributeContainer_def)
qed

text \<open>
  Registration itself stores the class under the lower-case key, and deregistration
  removes that key.
\<close>

lemma register_key:
  "RegisterAttributeContainer classes c = Inr classes' \<Longrightarrow>
   map_of classes' (py_lower (CONTAINER_TYPE c)) = Some c"
  by (auto simp: RegisterAttributeContainer_def Let_def update_conv' split: if_splits)

lemma deregister_key:
  "DeregisterAttributeContainer classes c = Inr classes' \<Longrightarrow>
   map_of classes' (py_lower (CONTAINER_TYPE c)) = None"
  by (auto simp: DeregisterAttributeContainer_def Let_def delete_conv' split: if_splits)

theorem registry_case_asymmetry_witness:
  "map_of (manager_run [Register event_class]) ''event'' = Some event_class \<and>
   CHR ''E'' \<in> set (CONTAINER_TYPE event_class) \<and> is_upper CHR ''E'' \<and>
   GetSchema (manager_run [Register event_class]) ''Event'' =
     Inl ValueError_unsupported_container_type \<and>
   CreateAttributeContainer (manager_run [Register event_class]) ''Event'' 7 =
     Inl ValueError_unsupported_container_type \<and>
   GetSchema (manager_run [Register event_class]) ''event'' = Inr [(''a'', ''int'')]"
proof -
  have low: "py_lower ''Event'' = ''event''" by code_simp
  have run: "manager_run [Register event_class] = [(''event'', event_class)]"
    by (simp add: manager_run_def RegisterAttributeContainer_def event_class_def low)
  have h1: "map_of (manager_run [Register event_class]) ''event'' = Some event_class"
    by (simp add: run)
  have h2: "CHR ''E'' \<in> set (CONTAINER_TYPE event_class)" by (simp add: event_class_def)
  have h3: "is_upper CHR ''E''" by (simp add: is_upper_def)
  from registry_case_asymmetry [OF h1 h2 h3, of 7] h1 h2 h3 show ?thesis
    by (simp add: event_class_def low)
qed

section \<open>Evaluating the store\<close>

text \<open>The definitions, as rewrite rules for running the model on a given input.\<close>

lemmas builtins = py_int_def py_strip_def is_space_def py_digits_def is_digit_def digit_value_def
  str_int_def digit_char_def py_lower_def lower_char_def is_upper_def

lemmas db_defs = empty_database_def db_has_table_def sqlite_master_names_def
  sqlite_master_columns_def rowid_names_def known_columns_def db_create_table_def cell_def
  db_insert_def db_select_row_def db_update_row_def db_max_rowid_def db_commit_def query_error_def
  metadata_get_def

lemmas helper_defs = basic_schema_helper_def MAPPINGS_def GetStorageDataType_def DeserializeValue_def
  SerializeValue_def CopyToString_def CopyFromString_def

lemmas store_defs = init_store_def allocate_def setattr_def SetIdentifier_def
  GetAttributeContainerSchema_def GetAttributeContainerNextSequenceNumber_def
  SetAttributeContainerNextSequenceNumber_def move_to_front_def lookup_key_of_def
  CacheAttributeContainerByIndex_def GetCachedAttributeContainer_def HasTable_def
  CreateAttributeContainerTable_def FlushWriteCache_def CacheAttributeContainerForWrite_def
  CommitWriteCache_def Flush_def CreatetAttributeContainerFromRow_def
  WriteNewAttributeContainer_def WriteExistingAttributeContainer_def
  GetAttributeContainerByIndex_def GetAttributeContainerByIdentifier_def
  GetNumberOfAttributeContainers_def HasAttributeContainers_def
  ReadMetadata_def CheckStorageMetadata_def ReadAndCheckStorageMetadata_def
  UpdateStorageMetadataFormatVersion_def WriteMetadata_def sqlite3_connect_def Open_def Close_def
  CheckSupportedFormat_def MAXIMUM_CACHED_CONTAINERS_def MAXIMUM_WRITE_CACHE_SIZE_def
  class_format_versions_def GetSchema_def CreateAttributeContainer_def new_container_def
  GetContainerTypes_def run_def Let_def

lemma small_numbers: "str_nat 0 = ''0''" "str_nat 1 = ''1''" "str_nat 2 = ''2''"
  by code_simp+

section \<open>Plain names\<close>





section \<open>Version gating at Open\<close>









text \<open>
  A store whose only registered type is called \<^verbatim>\<open>name\<close>: \<^verbatim>\<open>_HAS_TABLE_QUERY\<close> compares the
  column \<^verbatim>\<open>name\<close> with itself and finds the metadata table, the count then asks for the
  rows of a table \<^verbatim>\<open>name\<close> that does not exist, and \<^verbatim>\<open>Open\<close> raises IOError on a format
  version it accepts.
\<close>

lemma open_read_only_column_name:
  "fst (Open (init_store [(''name'', \<lparr>CONTAINER_TYPE = ''name'', SCHEMA = None\<rparr>)]
               basic_schema_helper spread_versions)
          (DatabaseFile (stored_database ''15'')) ''store.sqlite'' True) =
     Some IOError_unable_to_query"
  by (simp add: stored_database_def stored_metadata_def spread_versions_def store_defs db_defs
      builtins)

text \<open>
  With the constants of the class itself the three floors are one number, 20221023: no
  stored version lies between the read floor and the append floor.
\<close>

lemma class_floors_equal:
  "READ_COMPATIBLE_FORMAT_VERSION class_format_versions =
     APPEND_COMPATIBLE_FORMAT_VERSION class_format_versions"
  by (simp add: class_format_versions_def)

section \<open>Reading by identifier\<close>

text \<open>
  C8. For an identifier that has a sequence number \<open>k\<close>, whatever its name,
  \<^verbatim>\<open>GetAttributeContainerByIdentifier\<close> returns what \<^verbatim>\<open>GetAttributeContainerByIndex\<close> returns
  for index \<open>k - 1\<close>, the container, nothing or the exception, and leaves the store in
  the same state.
\<close>

theorem read_by_identifier_is_read_by_index:
  "GetAttributeContainerByIdentifier s container_type \<lparr>name = n, sequence_number = Some k\<rparr> =
   GetAttributeContainerByIndex s container_type (k - 1)"
  by (simp add: GetAttributeContainerByIdentifier_def)

section \<open>The format probe\<close>

text \<open>
  C7 fails on the code. A database whose metadata table has no format version, or one
  that is not a decimal integer, makes \<^verbatim>\<open>CheckSupportedFormat\<close> raise UnboundLocalError
  instead of returning False.
\<close>

theorem probe_raises_without_format_version:
  "CheckSupportedFormat
     (DatabaseFile (empty_database\<lparr>metadata := Some [(''serialization_format'', PyStr ''json'')]\<rparr>)) =
     Inl UnboundLocalError \<and>
   CheckSupportedFormat (DatabaseFile (stored_database ''abc'')) = Inl UnboundLocalError"
  by (simp add: CheckSupportedFormat_def empty_database_def metadata_get_def stored_database_def
      stored_metadata_def builtins)

text \<open>Where the probe does return: no file, no database, no metadata table, a version that parses.\<close>

lemma probe_returns:
  "CheckSupportedFormat NoFile = Inr False"
  "CheckSupportedFormat NotADatabaseFile = Inr False"
  "CheckSupportedFormat (DatabaseFile empty_database) = Inr False"
  "CheckSupportedFormat (DatabaseFile (stored_database ''20230312'')) = Inr True"
  by (simp_all add: CheckSupportedFormat_def empty_database_def metadata_get_def
      stored_database_def stored_metadata_def builtins)

section \<open>Updating a container of a type without schema\<close>




section \<open>The count of a type never decreases\<close>
















lemma no_loss_refl [simp]: "no_loss c c"
  by (simp add: no_loss_def)



























text \<open>
  For the type \<^verbatim>\<open>type\<close> the count stays 0 with a row in its table: \<^verbatim>\<open>_HAS_TABLE_QUERY\<close>
  compares the name of each table with the column \<^verbatim>\<open>type\<close>, whose value is \<^verbatim>\<open>table\<close>.
\<close>

lemma count_of_column_name:
  "fst (GetNumberOfAttributeContainers
     (run (snd (Open (init_store [(''type'', \<lparr>CONTAINER_TYPE = ''type'', SCHEMA = Some [(''a'', ''int'')]\<rparr>)]
                        basic_schema_helper class_format_versions) NoFile ''store.sqlite'' False))
        [NewObject \<lparr>CONTAINER_TYPE = ''type'', SCHEMA = Some [(''a'', ''int'')]\<rparr>,
         SetAttribute 0 ''a'' (PyInt 1), WriteNew 0, FlushAll]) ''type'') = Inr 0"
  by (simp add: store_defs db_defs builtins helper_defs small_numbers)

section \<open>The read cache after an update\<close>

text \<open>
  C1 fails on the code. After a container was written as new and the row was updated
  through another object with the same identifier, the read by index is served from
  the cache and returns the object first written, whose attribute \<^verbatim>\<open>a\<close> is still 1; the
  same read with the cache emptied goes to the table and builds a container whose
  \<^verbatim>\<open>a\<close> is 2. \<^verbatim>\<open>_WriteExistingAttributeContainer\<close> changes the row and leaves the cache
  entry of that row as it was.
\<close>

theorem cached_read_is_stale_after_update:
  "read_attribute (run opened_store update_through_copy) ''event'' 0 ''a'' =
     (Inr (Some 0), PyInt 1) \<and>
   read_attribute ((run opened_store update_through_copy)\<lparr>attribute_container_cache := []\<rparr>)
     ''event'' 0 ''a'' = (Inr (Some 2), PyInt 2)"
  by (simp add: read_attribute_def update_through_copy_def opened_store_def plain_class_def
      store_defs db_defs builtins helper_defs small_numbers)

text \<open>
  When the update goes through the cached object itself, the cache and the table agree:
  the cache holds the reference, not a copy.
\<close>

lemma cached_read_agrees_after_update_in_place:
  "read_attribute (run opened_store update_in_place) ''event'' 0 ''a'' =
     (Inr (Some 0), PyInt 2) \<and>
   read_attribute ((run opened_store update_in_place)\<lparr>attribute_container_cache := []\<rparr>)
     ''event'' 0 ''a'' = (Inr (Some 1), PyInt 2)"
  by (simp add: read_attribute_def update_in_place_def opened_store_def plain_class_def
      store_defs db_defs builtins helper_defs small_numbers)

end
